theory Spec2Isabelle
  imports Complex_Main "HOL-Library.Multiset" "HOL-Library.Product_Lexorder"
begin

section \<open>Python values shared by build.py and setup.py\<close>

text \<open>
  A Python \<open>str\<close> is modelled as a \<open>string\<close> whose characters are the code points
  below 256. Exceptions are values of \<open>exn\<close>; a computation that may raise returns
  \<open>exn + 'a\<close> with \<open>Inl\<close> for the exception. Every library call of the two scripts
  that can raise is a branch of the model: the calls of the operating system, the
  decoding of bytes into text, and \<open>print\<close>. Asynchronous events (a signal, an
  exhausted memory) are not events of the model.
\<close>

datatype oserror =
    FileNotFoundError
  | PermissionError
  | IsADirectoryError
  | NotADirectoryError
  | BrokenPipeError
  | Errno nat

datatype exn =
    OSError oserror
  | UnicodeEncodeError
  | UnicodeDecodeError
  | ValueError
  | CalledProcessError int string string
  | IndexError
  | SystemExit int

text \<open>
  A directory entry is a directory or a regular file. A regular file is \<open>File s\<close> when
  it can be opened and its bytes are the UTF-8 encoding of the text \<open>s\<close>;
  \<open>Undecodable s\<close> when it can be opened and the decoder delivers the text \<open>s\<close>
  before it meets bytes that are not UTF-8; \<open>Unreadable e\<close> when \<open>open\<close> for reading
  raises the error \<open>e\<close>. The directories the scripts look at are flat maps from a path
  to an entry. \<open>os.path.exists\<close> is true of the paths that have an entry, and of no
  other path.
\<close>

datatype node = File string | Undecodable string | Unreadable oserror | Dir

type_synonym filesystem = "string \<rightharpoonup> node"

definition exists :: "filesystem \<Rightarrow> string \<Rightarrow> bool" where
  "exists files p = (files p \<noteq> None)"

text \<open>
  Sequencing of two steps that may raise: the second runs on the value and the state of
  the first, and an exception of the first ends both.
\<close>

definition and_then ::
  "(exn + 'a) \<times> 's \<Rightarrow> ('a \<Rightarrow> 's \<Rightarrow> (exn + 'b) \<times> 's) \<Rightarrow> (exn + 'b) \<times> 's" where
  "and_then r f = (case r of (Inl e, s) \<Rightarrow> (Inl e, s) | (Inr x, s) \<Rightarrow> f x s)"

section \<open>build.py\<close>

subsection \<open>The platform as build.py uses it\<close>

text \<open>
  What \<open>print\<close> is given: pieces of text, a single code point beyond 255 (the check
  mark U+2713 and the ballot x U+2717 of the script), or the text \<open>str(e)\<close> of an
  exception.
\<close>

datatype piece = Str string | Code nat | Exc exn

type_synonym line = "piece list"

text \<open>
  \<open>print\<close> raises \<open>UnicodeEncodeError\<close> when the encoding of standard output has no
  bytes for a character, \<open>ValueError\<close> when standard output is closed, and an
  \<open>OSError\<close> when the write fails.
\<close>

datatype stream_error = Encode_error | Closed_stream | Write_error oserror

definition raised_by_print :: "stream_error \<Rightarrow> exn" where
  "raised_by_print e =
     (case e of
        Encode_error \<Rightarrow> UnicodeEncodeError
      | Closed_stream \<Rightarrow> ValueError
      | Write_error k \<Rightarrow> OSError k)"

text \<open>
  \<open>subprocess.run(cmd, check=True, capture_output=True, text=True)\<close> either raises an
  \<open>OSError\<close> because the command cannot be started, or obtains the exit status of the
  command and the bytes it wrote to its two pipes; with \<open>text=True\<close> the bytes of each
  pipe are decoded, which fails on bytes that are not text in the locale's encoding.
\<close>

datatype captured = Decoded string | Not_decodable

datatype proc = Exited int captured captured | Not_started oserror

text \<open>The calls of the operating system that build.py makes on a path.\<close>

datatype syscall = Rmtree string | Open_write string | Write string | Chmod string

text \<open>
  The platform is what the script cannot influence: \<open>spawn\<close> is what running a command
  does (a started command may change the directory), \<open>refuses\<close> the error, if any,
  with which the operating system refuses a call in a directory (permissions, a full or
  read-only disk), \<open>print_raises\<close> the error, if any, of printing a line after the lines
  printed so far, and \<open>flush_fails\<close> whether the standard streams cannot be flushed
  when the interpreter exits. The world is what the script changes: the directory and
  the lines printed so far.
\<close>

record platform =
  spawn :: "string list \<Rightarrow> filesystem \<Rightarrow> proc \<times> filesystem"
  refuses :: "syscall \<Rightarrow> filesystem \<Rightarrow> oserror option"
  print_raises :: "line list \<Rightarrow> line \<Rightarrow> stream_error option"
  flush_fails :: "line list \<Rightarrow> bool"

record world =
  fs :: filesystem
  printed :: "line list"

definition print_line :: "platform \<Rightarrow> line \<Rightarrow> world \<Rightarrow> (exn + unit) \<times> world" where
  "print_line P l w =
     (case print_raises P (printed w) l of
        Some e \<Rightarrow> (Inl (raised_by_print e), w)
      | None \<Rightarrow> (Inr (), w\<lparr>printed := printed w @ [l]\<rparr>))"

fun print_lines :: "platform \<Rightarrow> line list \<Rightarrow> world \<Rightarrow> (exn + unit) \<times> world" where
  "print_lines P [] w = (Inr (), w)"
| "print_lines P (l # ls) w = and_then (print_line P l w) (\<lambda>u. print_lines P ls)"

text \<open>
  \<open>shutil.rmtree(p)\<close> removes a directory; it raises when the operating system refuses,
  on a missing path and on a regular file.
\<close>

definition rmtree :: "platform \<Rightarrow> string \<Rightarrow> world \<Rightarrow> (exn + unit) \<times> world" where
  "rmtree P p w =
     (case refuses P (Rmtree p) (fs w) of
        Some e \<Rightarrow> (Inl (OSError e), w)
      | None \<Rightarrow>
          (case fs w p of
             None \<Rightarrow> (Inl (OSError FileNotFoundError), w)
           | Some Dir \<Rightarrow> (Inr (), w\<lparr>fs := (fs w)(p := None)\<rparr>)
           | Some f \<Rightarrow> (Inl (OSError NotADirectoryError), w)))"

text \<open>
  \<open>with open(p, "w") as f: f.write(s)\<close>: \<open>open\<close> raises when the operating system
  refuses and when \<open>p\<close> is a directory, and otherwise leaves an empty regular file;
  writing and closing then store the text, or raise when the operating system refuses.
  The text of both scripts is ASCII, so that every encoding of the locale has bytes for
  it; the model keeps the text as the script passes it to \<open>write\<close>.
\<close>

definition write_file :: "platform \<Rightarrow> string \<Rightarrow> string \<Rightarrow> world \<Rightarrow> (exn + unit) \<times> world" where
  "write_file P p s w =
     (case refuses P (Open_write p) (fs w) of
        Some e \<Rightarrow> (Inl (OSError e), w)
      | None \<Rightarrow>
          (case fs w p of
             Some Dir \<Rightarrow> (Inl (OSError IsADirectoryError), w)
           | _ \<Rightarrow>
               (case refuses P (Write p) ((fs w)(p \<mapsto> File [])) of
                  Some e \<Rightarrow> (Inl (OSError e), w\<lparr>fs := (fs w)(p \<mapsto> File [])\<rparr>)
                | None \<Rightarrow> (Inr (), w\<lparr>fs := (fs w)(p \<mapsto> File s)\<rparr>))))"

text \<open>
  \<open>os.chmod(p, 0o755)\<close> raises when the operating system refuses and on a missing path.
  Permission bits are not part of \<open>node\<close>, so a successful call leaves the directory of
  the model as it is.
\<close>

definition chmod :: "platform \<Rightarrow> string \<Rightarrow> world \<Rightarrow> (exn + unit) \<times> world" where
  "chmod P p w =
     (case refuses P (Chmod p) (fs w) of
        Some e \<Rightarrow> (Inl (OSError e), w)
      | None \<Rightarrow>
          (if exists (fs w) p then (Inr (), w) else (Inl (OSError FileNotFoundError), w)))"

subsection \<open>run_command\<close>

text \<open>
  \<^verbatim>\<open>
  def run_command(cmd, description):
      print(f"\n{description}...")
      print(f"Running: {' '.join(cmd)}")
      try:
          result = subprocess.run(cmd, check=True, capture_output=True, text=True)
          print("<U+2713> Success")
          return True
      except subprocess.CalledProcessError as e:
          print(f"<U+2717> Failed: {e}")
          print(f"stdout: {e.stdout}")
          print(f"stderr: {e.stderr}")
          return False
  \<close>
  \<open>subprocess_run\<close> is the call: the output is decoded before the exit status is
  looked at, and with \<open>check=True\<close> a non-zero exit status raises
  \<open>CalledProcessError\<close>. \<open>try_block\<close> is the body of the \<open>try\<close>, \<open>handler\<close> the
  body of the \<open>except\<close>, and \<open>try_except\<close> the statement of the two, which catches
  exactly that class.
\<close>

fun join :: "string \<Rightarrow> string list \<Rightarrow> string" where
  "join sep [] = []"
| "join sep [x] = x"
| "join sep (x # y # ys) = x @ sep @ join sep (y # ys)"

definition subprocess_run :: "platform \<Rightarrow> string list \<Rightarrow> world \<Rightarrow> (exn + unit) \<times> world" where
  "subprocess_run P cmd w =
     (case spawn P cmd (fs w) of
        (Not_started e, files) \<Rightarrow> (Inl (OSError e), w\<lparr>fs := files\<rparr>)
      | (Exited rc (Decoded out) (Decoded err), files) \<Rightarrow>
          (if rc = 0 then Inr () else Inl (CalledProcessError rc out err), w\<lparr>fs := files\<rparr>)
      | (Exited rc out err, files) \<Rightarrow> (Inl UnicodeDecodeError, w\<lparr>fs := files\<rparr>))"

definition try_block :: "platform \<Rightarrow> string list \<Rightarrow> world \<Rightarrow> (exn + bool) \<times> world" where
  "try_block P cmd w =
     and_then (subprocess_run P cmd w) (\<lambda>result w1.
     and_then (print_line P [Code 0x2713, Str '' Success''] w1) (\<lambda>u w2.
     (Inr True, w2)))"

definition handler :: "platform \<Rightarrow> exn \<Rightarrow> string \<Rightarrow> string \<Rightarrow> world \<Rightarrow> (exn + bool) \<times> world" where
  "handler P e out err w =
     and_then (print_line P [Code 0x2717, Str '' Failed: '', Exc e] w) (\<lambda>u w1.
     and_then (print_line P [Str ''stdout: '', Str out] w1) (\<lambda>u w2.
     and_then (print_line P [Str ''stderr: '', Str err] w2) (\<lambda>u w3.
     (Inr False, w3))))"

definition try_except :: "platform \<Rightarrow> string list \<Rightarrow> world \<Rightarrow> (exn + bool) \<times> world" where
  "try_except P cmd w =
     (case try_block P cmd w of
        (Inl (CalledProcessError rc out err), w1) \<Rightarrow>
          handler P (CalledProcessError rc out err) out err w1
      | r \<Rightarrow> r)"

definition run_command :: "platform \<Rightarrow> string list \<Rightarrow> string \<Rightarrow> world \<Rightarrow> (exn + bool) \<times> world" where
  "run_command P cmd description w =
     and_then (print_line P [Str ([CHR 0x0A] @ description @ ''...'')] w) (\<lambda>u w1.
     and_then (print_line P [Str (''Running: '' @ join '' '' cmd)] w1) (\<lambda>u w2.
     try_except P cmd w2))"

subsection \<open>build_with_pyinstaller and build_with_nuitka\<close>

text \<open>
  Both functions print a banner, clean the previous build with
  \<^verbatim>\<open>if os.path.exists(p): shutil.rmtree(p)\<close> on two paths, and return what
  \<open>run_command\<close> returns for a fixed command line.
\<close>

definition ruler :: string where
  "ruler = replicate 50 CHR ''=''"

definition remove_if_exists :: "platform \<Rightarrow> string \<Rightarrow> world \<Rightarrow> (exn + unit) \<times> world" where
  "remove_if_exists P p w = (if exists (fs w) p then rmtree P p w else (Inr (), w))"

definition pyinstaller_cmd :: "string list" where
  "pyinstaller_cmd =
     [''pyinstaller'', ''--onefile'', ''--name'', ''scan-crop'',
      ''--add-data'', ''scan_crop:scan_crop'', ''--hidden-import'', ''cv2'',
      ''--hidden-import'', ''numpy'', ''--console'', ''scan_crop/cli.py'']"

definition nuitka_cmd :: "string list" where
  "nuitka_cmd =
     [''nuitka'', ''--onefile'', ''--output-filename=scan-crop'',
      ''--include-package=scan_crop'', ''--include-module=cv2'',
      ''--include-module=numpy'', ''--assume-yes-for-downloads'', ''scan_crop/cli.py'']"

definition build_with_pyinstaller :: "platform \<Rightarrow> world \<Rightarrow> (exn + bool) \<times> world" where
  "build_with_pyinstaller P w =
     and_then (print_lines P
                 [[Str ([CHR 0x0A] @ ruler)], [Str ''Building with PyInstaller''], [Str ruler]] w)
       (\<lambda>u w1.
     and_then (remove_if_exists P ''dist'' w1) (\<lambda>u w2.
     and_then (remove_if_exists P ''build'' w2) (\<lambda>u w3.
     run_command P pyinstaller_cmd ''Building PyInstaller executable'' w3)))"

definition build_with_nuitka :: "platform \<Rightarrow> world \<Rightarrow> (exn + bool) \<times> world" where
  "build_with_nuitka P w =
     and_then (print_lines P
                 [[Str ([CHR 0x0A] @ ruler)], [Str ''Building with Nuitka''], [Str ruler]] w)
       (\<lambda>u w1.
     and_then (remove_if_exists P ''scan-crop.dist'' w1) (\<lambda>u w2.
     and_then (remove_if_exists P ''scan-crop.build'' w2) (\<lambda>u w3.
     run_command P nuitka_cmd ''Building Nuitka executable'' w3)))"

subsection \<open>create_build_script\<close>

definition unlines :: "string list \<Rightarrow> string" where
  "unlines ls = concat (map (\<lambda>l. l @ [CHR 0x0A]) ls)"

definition windows_script :: string where
  "windows_script = unlines
     [''@echo off'',
      ''echo Building scan-crop for Windows...'',
      [],
      ''REM Install build dependencies'',
      ''pip install pyinstaller nuitka'',
      [],
      ''REM Build with PyInstaller'',
      ''python build.py pyinstaller'',
      [],
      ''REM Build with Nuitka  '',
      ''python build.py nuitka'',
      [],
      ''echo Build complete! Check dist/ and scan-crop.dist/ folders.'',
      ''pause'']"

definition unix_script :: string where
  "unix_script = unlines
     [''#!/bin/bash'',
      ''echo '' @ [CHR 0x22] @ ''Building scan-crop for Unix/Linux/macOS...'' @ [CHR 0x22],
      [],
      ''# Install build dependencies'',
      ''pip install pyinstaller nuitka'',
      [],
      ''# Build with PyInstaller'',
      ''python build.py pyinstaller'',
      [],
      ''# Build with Nuitka'',
      ''python build.py nuitka'',
      [],
      ''echo '' @ [CHR 0x22] @ ''Build complete! Check dist/ and scan-crop.dist/ folders.''
        @ [CHR 0x22]]"

text \<open>
  The two files are written in turn, the shell script is made executable, and a line is
  printed. An exception of any step ends the function there.
\<close>

definition create_build_script :: "platform \<Rightarrow> world \<Rightarrow> (exn + unit) \<times> world" where
  "create_build_script P w =
     and_then (write_file P ''build-windows.bat'' windows_script w) (\<lambda>u w1.
     and_then (write_file P ''build-unix.sh'' unix_script w1) (\<lambda>u w2.
     and_then (chmod P ''build-unix.sh'' w2) (\<lambda>u w3.
     print_line P [Str ''Created build-windows.bat and build-unix.sh''] w3)))"

subsection \<open>main and the exit status of the script\<close>

text \<open>
  \<open>str.lower\<close> on code points below 256: the upper-case letters are A to Z and
  the Latin-1 letters 192 to 222 without the multiplication sign 215; each is 32 below
  its lower-case letter. \<open>str.title\<close> is applied to the lower-case names of the two
  build targets only; on ASCII text it puts every letter that follows a letter in lower
  case and every other letter in upper case.
\<close>

definition lower_char :: "char \<Rightarrow> char" where
  "lower_char c =
     (let n = (of_char c :: nat)
      in if (65 \<le> n \<and> n \<le> 90) \<or> (192 \<le> n \<and> n \<le> 222 \<and> n \<noteq> 215)
         then char_of (n + 32) else c)"

definition lower :: "string \<Rightarrow> string" where
  "lower s = map lower_char s"

definition ascii_letter :: "char \<Rightarrow> bool" where
  "ascii_letter c =
     (let n = (of_char c :: nat) in (65 \<le> n \<and> n \<le> 90) \<or> (97 \<le> n \<and> n \<le> 122))"

definition upper_ascii :: "char \<Rightarrow> char" where
  "upper_ascii c =
     (let n = (of_char c :: nat) in if 97 \<le> n \<and> n \<le> 122 then char_of (n - 32) else c)"

fun title_after :: "bool \<Rightarrow> string \<Rightarrow> string" where
  "title_after after_letter [] = []"
| "title_after after_letter (c # cs) =
     (if ascii_letter c
      then (if after_letter then lower_char c else upper_ascii c) # title_after True cs
      else c # title_after False cs)"

definition title :: "string \<Rightarrow> string" where
  "title s = title_after False s"

text \<open>
  \<^verbatim>\<open>
  def main():
      if len(sys.argv) > 1:
          target = sys.argv[1].lower()
          if target == "pyinstaller":
              success = build_with_pyinstaller()
          elif target == "nuitka":
              success = build_with_nuitka()
          elif target == "scripts":
              create_build_script()
              return
          else:
              print(f"Unknown target: {target}")
              print("Usage: python build.py [pyinstaller|nuitka|scripts]")
              return
          if success:
              print(f"\n<U+2713> {target.title()} build completed successfully!")
          else:
              print(f"\n<U+2717> {target.title()} build failed!")
              sys.exit(1)
      else:
          print("Scan-Crop Build Script")
          ...
  \<close>
  \<open>sys.exit(1)\<close> raises \<open>SystemExit 1\<close>; \<open>finish\<close> is the \<open>if success\<close> at the end.
\<close>

definition finish :: "platform \<Rightarrow> string \<Rightarrow> bool \<Rightarrow> world \<Rightarrow> (exn + unit) \<times> world" where
  "finish P target success w =
     (if success then
        print_line P
          [Str [CHR 0x0A], Code 0x2713, Str ('' '' @ title target @ '' build completed successfully!'')] w
      else
        and_then
          (print_line P [Str [CHR 0x0A], Code 0x2717, Str ('' '' @ title target @ '' build failed!'')] w)
          (\<lambda>u w1. (Inl (SystemExit 1), w1)))"

definition usage :: "line list" where
  "usage =
     [[Str ''Scan-Crop Build Script''],
      [Str ruler],
      [Str ''This script builds portable executables for scan-crop.''],
      [Str ([CHR 0x0A] @ ''Usage:'')],
      [Str ''  python build.py pyinstaller  # Build with PyInstaller''],
      [Str ''  python build.py nuitka       # Build with Nuitka''],
      [Str ''  python build.py scripts      # Create platform build scripts''],
      [Str ([CHR 0x0A] @ ''Prerequisites:'')],
      [Str ''  pip install pyinstaller nuitka''],
      [Str ([CHR 0x0A] @ ''Note: Nuitka typically produces faster executables but'')],
      [Str ''PyInstaller is more reliable for complex dependencies like OpenCV.'']]"

definition main :: "platform \<Rightarrow> string list \<Rightarrow> world \<Rightarrow> (exn + unit) \<times> world" where
  "main P argv w =
     (if length argv > 1 then
        (let target = lower (argv ! 1)
         in if target = ''pyinstaller''
            then and_then (build_with_pyinstaller P w) (finish P target)
            else if target = ''nuitka''
            then and_then (build_with_nuitka P w) (finish P target)
            else if target = ''scripts'' then create_build_script P w
            else print_lines P
                   [[Str (''Unknown target: '' @ target)],
                    [Str ''Usage: python build.py [pyinstaller|nuitka|scripts]'']] w)
      else print_lines P usage w)"

text \<open>
  The script calls \<open>main()\<close> and ends. The interpreter then flushes the standard
  streams: when that fails it exits with status 120, whatever happened before.
  Otherwise it exits with status 0 after a normal end, with the argument of
  \<open>SystemExit\<close> (the script raises it with 1 only), and with status 1 after any other
  exception that nothing caught.
\<close>

definition exit_status :: "exn + unit \<Rightarrow> int" where
  "exit_status r = (case r of Inr u \<Rightarrow> 0 | Inl (SystemExit n) \<Rightarrow> n | Inl e \<Rightarrow> 1)"

definition build_py :: "platform \<Rightarrow> string list \<Rightarrow> world \<Rightarrow> int" where
  "build_py P argv w =
     (case main P argv w of
        (r, w') \<Rightarrow> if flush_fails P (printed w') then 120 else exit_status r)"

text \<open>The target a command line requests: \<open>sys.argv[1].lower()\<close> when there is one.\<close>

definition requested :: "string list \<Rightarrow> string option" where
  "requested argv = (if length argv > 1 then Some (lower (argv ! 1)) else None)"

text \<open>
  The exceptions that end the script with status 1 and that \<open>run_command\<close> does not
  catch: every exception but \<open>SystemExit\<close> and \<open>CalledProcessError\<close>.
\<close>

definition ordinary :: "exn \<Rightarrow> bool" where
  "ordinary e =
     (case e of SystemExit n \<Rightarrow> False | CalledProcessError rc out err \<Rightarrow> False | _ \<Rightarrow> True)"

subsection \<open>Concrete platforms\<close>

text \<open>
  The concrete inputs of the properties below. On \<open>console r\<close> every command ends as
  \<open>r\<close> and leaves the directory alone, the operating system refuses nothing, and
  standard output takes every line and can be flushed. \<open>legacy_console r\<close> differs in
  the encoding of standard output, which has no bytes for a code point beyond 255.
  \<open>unflushable r\<close> differs from \<open>console r\<close> in that the streams cannot be flushed at
  exit.
\<close>

definition console :: "proc \<Rightarrow> platform" where
  "console r =
     \<lparr>spawn = (\<lambda>cmd files. (r, files)),
      refuses = (\<lambda>call files. None),
      print_raises = (\<lambda>log l. None),
      flush_fails = (\<lambda>log. False)\<rparr>"

definition beyond_255 :: "piece \<Rightarrow> bool" where
  "beyond_255 p = (case p of Code n \<Rightarrow> 255 < n | _ \<Rightarrow> False)"

definition legacy_console :: "proc \<Rightarrow> platform" where
  "legacy_console r =
     \<lparr>spawn = (\<lambda>cmd files. (r, files)),
      refuses = (\<lambda>call files. None),
      print_raises = (\<lambda>log l. if list_ex beyond_255 l then Some Encode_error else None),
      flush_fails = (\<lambda>log. False)\<rparr>"

definition unflushable :: "proc \<Rightarrow> platform" where
  "unflushable r =
     \<lparr>spawn = (\<lambda>cmd files. (r, files)),
      refuses = (\<lambda>call files. None),
      print_raises = (\<lambda>log l. None),
      flush_fails = (\<lambda>log. True)\<rparr>"

definition empty_world :: world where
  "empty_world = \<lparr>fs = Map.empty, printed = []\<rparr>"

section \<open>setup.py\<close>

subsection \<open>Reading text files\<close>

text \<open>
  \<open>open(path, 'r', encoding='utf-8')\<close> reads in universal-newlines mode: a carriage
  return, alone or followed by a line feed, arrives as one line feed. \<open>f.read()\<close> is
  the translated text; iterating over \<open>f\<close> yields its lines, each with its line feed
  (the last line may lack one). In a file that stops being UTF-8 the iteration yields
  the lines that are complete before the decoder fails, and then raises
  \<open>UnicodeDecodeError\<close>.
\<close>

fun universal_newlines :: "string \<Rightarrow> string" where
  "universal_newlines [] = []"
| "universal_newlines (c # d # cs) =
     (if c = CHR 0x0D \<and> d = CHR 0x0A then CHR 0x0A # universal_newlines cs
      else if c = CHR 0x0D then CHR 0x0A # universal_newlines (d # cs)
      else c # universal_newlines (d # cs))"
| "universal_newlines [c] = (if c = CHR 0x0D then [CHR 0x0A] else [c])"

fun keepends :: "string \<Rightarrow> string \<Rightarrow> string list" where
  "keepends cur [] = (if cur = [] then [] else [cur])"
| "keepends cur (c # cs) =
     (if c = CHR 0x0A then (cur @ [c]) # keepends [] cs else keepends (cur @ [c]) cs)"

definition readlines :: "string \<Rightarrow> string list" where
  "readlines s = keepends [] (universal_newlines s)"

definition complete_lines :: "string \<Rightarrow> string list" where
  "complete_lines s = filter (\<lambda>line. line \<noteq> [] \<and> last line = CHR 0x0A) (readlines s)"

subsection \<open>The string methods get_version calls\<close>

definition startswith :: "string \<Rightarrow> string \<Rightarrow> bool" where
  "startswith s pre = (take (length pre) s = pre)"

text \<open>\<open>s.split(sep)\<close> for a separator of one character: never an empty list.\<close>

fun split_on :: "char \<Rightarrow> string \<Rightarrow> string list" where
  "split_on sep [] = [[]]"
| "split_on sep (c # cs) =
     (if c = sep then [] # split_on sep cs
      else (case split_on sep cs of
              [] \<Rightarrow> [[c]]
            | word # rest \<Rightarrow> (c # word) # rest))"

text \<open>
  \<open>s.strip()\<close> removes white space at both ends; below 256 the white-space code points
  are 9 to 13, 28 to 32, 133 and 160. \<open>s.strip(chars)\<close> removes the characters of
  \<open>chars\<close> at both ends.
\<close>

definition isspace :: "char \<Rightarrow> bool" where
  "isspace c = ((of_char c :: nat) \<in> set [9, 10, 11, 12, 13, 28, 29, 30, 31, 32, 133, 160])"

definition strip_with :: "(char \<Rightarrow> bool) \<Rightarrow> string \<Rightarrow> string" where
  "strip_with P s = rev (dropWhile P (rev (dropWhile P s)))"

definition strip :: "string \<Rightarrow> string" where
  "strip s = strip_with isspace s"

definition strip_chars :: "string \<Rightarrow> string \<Rightarrow> string" where
  "strip_chars chars s = strip_with (\<lambda>c. c \<in> set chars) s"

subsection \<open>read_readme and get_version\<close>

text \<open>
  Paths are relative to the directory of setup.py (\<open>os.path.dirname(__file__)\<close>).
  \<open>open\<close> raises \<open>IsADirectoryError\<close> on a directory and the error of the entry on a
  file that cannot be opened.
  \<^verbatim>\<open>
  def read_readme():
      readme_path = os.path.join(os.path.dirname(__file__), 'README.md')
      if os.path.exists(readme_path):
          with open(readme_path, 'r', encoding='utf-8') as f:
              return f.read()
      return "Film negative/positive crop detection tool"
  \<close>
\<close>

definition readme_path :: string where
  "readme_path = ''README.md''"

definition init_path :: string where
  "init_path = ''scan_crop/__init__.py''"

definition read_readme :: "filesystem \<Rightarrow> exn + string" where
  "read_readme files =
     (case files readme_path of
        None \<Rightarrow> Inr ''Film negative/positive crop detection tool''
      | Some Dir \<Rightarrow> Inl (OSError IsADirectoryError)
      | Some (Unreadable e) \<Rightarrow> Inl (OSError e)
      | Some (Undecodable s) \<Rightarrow> Inl UnicodeDecodeError
      | Some (File s) \<Rightarrow> Inr (universal_newlines s))"

text \<open>
  \<^verbatim>\<open>
  def get_version():
      init_path = os.path.join(os.path.dirname(__file__), 'scan_crop', '__init__.py')
      if os.path.exists(init_path):
          with open(init_path, 'r', encoding='utf-8') as f:
              for line in f:
                  if line.startswith('__version__'):
                      return line.split('=')[1].strip().strip('"\'')
      return "0.1.0"
  \<close>
  \<open>scan_version\<close> is the loop over the lines: the first line that starts with
  \<open>__version__\<close> ends it with a \<open>return\<close>, or with the \<open>IndexError\<close> of \<open>[1]\<close> when
  that line has no equals sign; \<open>None\<close> is the end of the lines without a \<open>return\<close>.
\<close>

fun scan_version :: "string list \<Rightarrow> (exn + string) option" where
  "scan_version [] = None"
| "scan_version (line # rest) =
     (if startswith line ''__version__'' then
        (case split_on CHR ''='' line of
           word # v # words \<Rightarrow> Some (Inr (strip_chars [CHR 0x22, CHR 0x27] (strip v)))
         | _ \<Rightarrow> Some (Inl IndexError))
      else scan_version rest)"

definition get_version :: "filesystem \<Rightarrow> exn + string" where
  "get_version files =
     (case files init_path of
        None \<Rightarrow> Inr ''0.1.0''
      | Some Dir \<Rightarrow> Inl (OSError IsADirectoryError)
      | Some (Unreadable e) \<Rightarrow> Inl (OSError e)
      | Some (Undecodable s) \<Rightarrow>
          (case scan_version (complete_lines s) of
             Some r \<Rightarrow> r
           | None \<Rightarrow> Inl UnicodeDecodeError)
      | Some (File s) \<Rightarrow>
          (case scan_version (readlines s) of
             Some r \<Rightarrow> r
           | None \<Rightarrow> Inr ''0.1.0''))"

subsection \<open>The call of setup\<close>

text \<open>
  The keyword arguments of \<open>setup(...)\<close>, in the order the call evaluates them.
  \<open>packages=find_packages()\<close> is computed by setuptools and is not part of the record.
\<close>

record metadata =
  name :: string
  version :: string
  author :: string
  author_email :: string
  description :: string
  long_description :: string
  long_description_content_type :: string
  url :: string
  classifiers :: "string list"
  python_requires :: string
  install_requires :: "string list"
  extras_require :: "(string \<times> string list) list"
  entry_points :: "(string \<times> string list) list"
  include_package_data :: bool
  zip_safe :: bool

text \<open>
  \<open>version=get_version()\<close> is evaluated before \<open>long_description=read_readme()\<close>;
  when one of them raises, \<open>setup\<close> is not called.
\<close>

definition setup_py :: "filesystem \<Rightarrow> exn + metadata" where
  "setup_py files =
     (case get_version files of
        Inl e \<Rightarrow> Inl e
      | Inr v \<Rightarrow>
          (case read_readme files of
             Inl e \<Rightarrow> Inl e
           | Inr readme \<Rightarrow>
               Inr \<lparr>name = ''scan-crop'',
                    version = v,
                    author = ''Your Name'',
                    author_email = ''your.email@example.com'',
                    description =
                      ''Film negative/positive crop detection tool with automatic border detection'',
                    long_description = readme,
                    long_description_content_type = ''text/markdown'',
                    url = ''https://github.com/yourusername/scan-crop'',
                    classifiers =
                      [''Development Status :: 4 - Beta'',
                       ''Intended Audience :: End Users/Desktop'',
                       ''License :: OSI Approved :: MIT License'',
                       ''Operating System :: OS Independent'',
                       ''Programming Language :: Python :: 3'',
                       ''Programming Language :: Python :: 3.8'',
                       ''Programming Language :: Python :: 3.9'',
                       ''Programming Language :: Python :: 3.10'',
                       ''Programming Language :: Python :: 3.11'',
                       ''Programming Language :: Python :: 3.12'',
                       ''Topic :: Multimedia :: Graphics :: Graphics Conversion'',
                       ''Topic :: Scientific/Engineering :: Image Processing''],
                    python_requires = ''>=3.8'',
                    install_requires = [''opencv-python>=4.5.0'', ''numpy>=1.19.0''],
                    extras_require =
                      [(''dev'', [''pytest>=6.0'', ''black>=21.0'', ''flake8>=3.8'', ''mypy>=0.800'']),
                       (''build'', [''pyinstaller>=5.0'', ''nuitka>=1.0''])],
                    entry_points = [(''console_scripts'', [''scan-crop=scan_crop.cli:main''])],
                    include_package_data = True,
                    zip_safe = False\<rparr>))"

section \<open>The image-analysis core\<close>

text \<open>
  build.py bundles \<open>scan_crop/cli.py\<close> and setup.py installs the package
  \<open>scan_crop\<close>; neither file of the package is among the sources. The specification
  describes its core in sections 3 to 7, and this section follows that description. The
  numeric kernels that the specification leaves open (its section 9 calls their
  heuristics an open question) are parameters of the model, collected in \<open>kernels\<close>;
  every property below holds for all of them.
\<close>

subsection \<open>Data model (specification, section 3)\<close>

text \<open>
  Modelled from the spec: the Image of the package \<open>scan_crop\<close>, a grid of pixels with
  its width, height and channel depth (grayscale or RGB). The buffer holds one number per
  channel of each pixel.
\<close>

datatype depth = Grayscale | RGB

record image =
  width :: nat
  height :: nat
  depth :: depth
  pixels :: "nat list"

text \<open>
  Modelled from the spec: the EdgeMap of the package \<open>scan_crop\<close>, a single-channel
  scalar field of the dimensions of its Image.
\<close>

record edge_map =
  map_width :: nat
  map_height :: nat
  magnitude :: "nat \<Rightarrow> nat \<Rightarrow> rat"

text \<open>
  Modelled from the spec: the Candidate Region of the package \<open>scan_crop\<close>, an
  axis-aligned bounding box with a confidence score.
\<close>

record candidate_region =
  box_left :: nat
  box_top :: nat
  box_width :: nat
  box_height :: nat
  confidence :: rat

text \<open>
  Modelled from the spec: the Frame Rectangle of the package \<open>scan_crop\<close>, four corner
  points (in the order they are joined), a rotation angle estimate and the Candidate
  Region it was refined from.
\<close>

type_synonym point = "rat \<times> rat"

type_synonym quadrilateral = "point \<times> point \<times> point \<times> point"

record frame_rectangle =
  corners :: quadrilateral
  angle :: rat
  source :: candidate_region

text \<open>
  Modelled from the spec: the CropResult of the package \<open>scan_crop\<close>, the cropped
  Image with the Frame Rectangle used, the applied rotation (one of the four right
  angles, and the fine angle) and a status.
\<close>

datatype rotation = R0 | R90 | R180 | R270

datatype status = Success | LowConfidence | Failed

record crop_result =
  cropped :: image
  frame :: frame_rectangle
  applied_rotation :: "rotation \<times> rat"
  status :: status

text \<open>
  Modelled from the spec: the Config of the core entry point (section 6), with its seven
  fields.
\<close>

record config =
  minimum_region_area_fraction :: rat
  minimum_mask_pixel_count :: nat
  adaptive_threshold_percentile :: rat
  rotation_search_range_degrees :: rat
  rotation_improvement_threshold :: rat
  confidence_threshold :: rat
  expected_aspect_ratio :: rat

text \<open>
  Modelled from the spec: the error of the core (section 7). \<open>DecodeError\<close> and
  \<open>WriteError\<close> belong to the loader and the writer, outside the core.
\<close>

datatype core_error = InvalidImage

text \<open>
  Modelled from the spec: the numeric kernels of the package \<open>scan_crop\<close> that the
  specification names and does not define. \<open>edge_operator\<close> is the absolute gradient
  magnitude at a pixel (4.1); \<open>threshold_at\<close> the value of a list at a percentile and
  \<open>connected_components\<close> the labelling of the content pixels (4.2); \<open>search_angles\<close>
  the angles tried within the search range, \<open>rotated_fit\<close> the minimal bounding
  quadrilateral at an angle and \<open>enclosed_background\<close> the background it encloses
  (4.3); \<open>warp\<close> the rectification, crop and right-angle rotation of the pixels (4.5).
\<close>

record kernels =
  edge_operator :: "image \<Rightarrow> nat \<Rightarrow> nat \<Rightarrow> rat"
  threshold_at :: "rat list \<Rightarrow> rat \<Rightarrow> rat"
  connected_components :: "(nat \<times> nat) list \<Rightarrow> (nat \<times> nat) list list"
  search_angles :: "rat \<Rightarrow> rat list"
  rotated_fit :: "edge_map \<Rightarrow> candidate_region \<Rightarrow> rat \<Rightarrow> quadrilateral"
  enclosed_background :: "edge_map \<Rightarrow> quadrilateral \<Rightarrow> rat"
  warp :: "image \<Rightarrow> quadrilateral \<Rightarrow> rotation \<Rightarrow> image"

subsection \<open>EdgeMap Builder (specification, section 4.1)\<close>

text \<open>
  Modelled from the spec: the malformed inputs of the package \<open>scan_crop\<close>, a zero-size
  image or a pixel buffer that cannot be read as width times height pixels (section 7).
\<close>

definition channels :: "depth \<Rightarrow> nat" where
  "channels d = (case d of Grayscale \<Rightarrow> 1 | RGB \<Rightarrow> 3)"

definition malformed :: "image \<Rightarrow> bool" where
  "malformed img =
     (width img = 0 \<or> height img = 0 \<or>
      length (pixels img) \<noteq> width img * height img * channels (depth img))"

text \<open>
  Modelled from the spec: \<open>buildEdgeMap\<close> of the package \<open>scan_crop\<close>. Its only failure
  is \<open>InvalidImage\<close> on a malformed input.
\<close>

definition buildEdgeMap :: "kernels \<Rightarrow> image \<Rightarrow> core_error + edge_map" where
  "buildEdgeMap K img =
     (if malformed img then Inl InvalidImage
      else Inr \<lparr>map_width = width img, map_height = height img,
                magnitude = edge_operator K img\<rparr>)"

subsection \<open>Border Detector (specification, section 4.2)\<close>

text \<open>
  Modelled from the spec: the binary mask of \<open>detectCandidates\<close>. The threshold is the
  value of the EdgeMap at the configured percentile; the content pixels are those at or
  above it, listed row by row.
\<close>

definition grid :: "edge_map \<Rightarrow> (nat \<times> nat) list" where
  "grid em = concat (map (\<lambda>y. map (\<lambda>x. (x, y)) [0..<map_width em]) [0..<map_height em])"

definition content_pixels :: "kernels \<Rightarrow> edge_map \<Rightarrow> config \<Rightarrow> (nat \<times> nat) list" where
  "content_pixels K em cfg =
     (let t = threshold_at K (map (\<lambda>(x, y). magnitude em x y) (grid em))
                (adaptive_threshold_percentile cfg)
      in filter (\<lambda>(x, y). t \<le> magnitude em x y) (grid em))"

text \<open>
  Modelled from the spec: the bounding box and the confidence of a component in
  \<open>detectCandidates\<close>. The confidence is the component's pixel count over the area of
  its bounding box.
\<close>

definition region_of :: "(nat \<times> nat) list \<Rightarrow> candidate_region" where
  "region_of ps =
     (let l = Min (set (map fst ps)); r = Max (set (map fst ps));
          t = Min (set (map snd ps)); b = Max (set (map snd ps))
      in \<lparr>box_left = l, box_top = t, box_width = r - l + 1, box_height = b - t + 1,
          confidence = of_nat (length ps) / of_nat ((r - l + 1) * (b - t + 1))\<rparr>)"

text \<open>
  Modelled from the spec: the components \<open>detectCandidates\<close> keeps. A component is
  discarded when its box is below the minimum area (the configured fraction of the image
  area) or when it has fewer mask pixels than the configured count. A component has at
  least one pixel.
\<close>

definition qualifies :: "edge_map \<Rightarrow> config \<Rightarrow> (nat \<times> nat) list \<Rightarrow> bool" where
  "qualifies em cfg ps =
     (ps \<noteq> [] \<and>
      minimum_region_area_fraction cfg * of_nat (map_width em * map_height em)
        \<le> of_nat (box_width (region_of ps) * box_height (region_of ps)) \<and>
      minimum_mask_pixel_count cfg \<le> length ps)"

definition qualifying_regions :: "kernels \<Rightarrow> edge_map \<Rightarrow> config \<Rightarrow> candidate_region list" where
  "qualifying_regions K em cfg =
     map region_of
       (filter (qualifies em cfg) (connected_components K (content_pixels K em cfg)))"

text \<open>
  Modelled from the spec: the order of \<open>detectCandidates\<close>, by descending confidence,
  then ascending x of the left edge, then ascending y.
\<close>

definition reading_key :: "candidate_region \<Rightarrow> rat \<times> nat \<times> nat" where
  "reading_key c = (- confidence c, box_left c, box_top c)"

text \<open>
  Modelled from the spec: \<open>detectCandidates\<close> of the package \<open>scan_crop\<close>. All
  qualifying components are returned, in the order of \<open>reading_key\<close>.
\<close>

definition detectCandidates :: "kernels \<Rightarrow> edge_map \<Rightarrow> config \<Rightarrow> candidate_region list" where
  "detectCandidates K em cfg = sort_key reading_key (qualifying_regions K em cfg)"

subsection \<open>Rectangle Refiner (specification, section 4.3)\<close>

text \<open>
  Modelled from the spec: the invariant of a Frame Rectangle (section 3). The area of a
  quadrilateral is half the absolute value of the shoelace sum of its corners; it is
  convex and does not cross itself when the four turns at its corners all go the same
  way.
\<close>

definition cross :: "point \<Rightarrow> point \<Rightarrow> point \<Rightarrow> rat" where
  "cross p q r = (fst q - fst p) * (snd r - snd q) - (snd q - snd p) * (fst r - fst q)"

definition convex :: "quadrilateral \<Rightarrow> bool" where
  "convex quad =
     (case quad of (a, b, c, d) \<Rightarrow>
        (0 < cross a b c \<and> 0 < cross b c d \<and> 0 < cross c d a \<and> 0 < cross d a b) \<or>
        (cross a b c < 0 \<and> cross b c d < 0 \<and> cross c d a < 0 \<and> cross d a b < 0))"

definition area :: "quadrilateral \<Rightarrow> rat" where
  "area quad =
     (case quad of (a, b, c, d) \<Rightarrow>
        \<bar>(fst a * snd b - fst b * snd a) + (fst b * snd c - fst c * snd b)
         + (fst c * snd d - fst d * snd c) + (fst d * snd a - fst a * snd d)\<bar> / 2)"

definition valid_frame :: "edge_map \<Rightarrow> config \<Rightarrow> quadrilateral \<Rightarrow> bool" where
  "valid_frame em cfg quad =
     (convex quad \<and>
      minimum_region_area_fraction cfg * of_nat (map_width em * map_height em) \<le> area quad)"

text \<open>
  Modelled from the spec: the start of \<open>refine\<close>, the axis-aligned bounding box of the
  candidate as a quadrilateral.
\<close>

definition axis_aligned :: "candidate_region \<Rightarrow> quadrilateral" where
  "axis_aligned c =
     (let l = of_nat (box_left c); t = of_nat (box_top c);
          r = of_nat (box_left c + box_width c); b = of_nat (box_top c + box_height c)
      in ((l, t), (r, t), (r, b), (l, b)))"

text \<open>
  Modelled from the spec: the angular search of \<open>refine\<close>, over the finitely many
  angles of the search range, for the rotation whose fit encloses the least background.
\<close>

fun search :: "kernels \<Rightarrow> edge_map \<Rightarrow> candidate_region \<Rightarrow> rat list \<Rightarrow> (rat \<times> quadrilateral) option" where
  "search K em c [] = None"
| "search K em c (a # as) =
     (let q = rotated_fit K em c a
      in case search K em c as of
           None \<Rightarrow> Some (a, q)
         | Some (b, r) \<Rightarrow>
             if enclosed_background K em q \<le> enclosed_background K em r
             then Some (a, q) else Some (b, r))"

text \<open>
  Modelled from the spec: \<open>refine\<close> of the package \<open>scan_crop\<close>. The rotated fit is
  accepted only if it reduces the area of the axis-aligned box by more than the
  improvement threshold; the result is dropped (\<open>None\<close>) when it fails the minimum-area
  or convexity invariant.
\<close>

definition refine :: "kernels \<Rightarrow> config \<Rightarrow> candidate_region \<Rightarrow> edge_map \<Rightarrow> frame_rectangle option" where
  "refine K cfg c em =
     (let axis = axis_aligned c;
          fit = (case search K em c (search_angles K (rotation_search_range_degrees cfg)) of
                   None \<Rightarrow> (0, axis)
                 | Some (a, q) \<Rightarrow>
                     if rotation_improvement_threshold cfg < area axis - area q
                     then (a, q) else (0, axis))
      in if valid_frame em cfg (snd fit)
         then Some \<lparr>corners = snd fit, angle = fst fit, source = c\<rparr>
         else None)"

subsection \<open>Orientation Resolver (specification, section 4.4)\<close>

text \<open>
  Modelled from the spec: \<open>resolveOrientation\<close> of the package \<open>scan_crop\<close>. The
  rotation is 0 unless the frame's width to height ratio is inverted relative to the
  expected aspect ratio, in which case it is 90; the fine angle is the refiner's. Side
  lengths are compared by their squares.
\<close>

definition side2 :: "point \<Rightarrow> point \<Rightarrow> rat" where
  "side2 p q = (fst q - fst p) * (fst q - fst p) + (snd q - snd p) * (snd q - snd p)"

definition inverted :: "config \<Rightarrow> quadrilateral \<Rightarrow> bool" where
  "inverted cfg quad =
     (case quad of (a, b, c, d) \<Rightarrow>
        (1 < expected_aspect_ratio cfg \<and> side2 a b < side2 a d) \<or>
        (expected_aspect_ratio cfg < 1 \<and> side2 a d < side2 a b))"

definition resolveOrientation :: "config \<Rightarrow> frame_rectangle \<Rightarrow> image \<Rightarrow> rotation \<times> rat" where
  "resolveOrientation cfg f img = (if inverted cfg (corners f) then R90 else R0, angle f)"

subsection \<open>Cropper (specification, section 4.5)\<close>

text \<open>
  Modelled from the spec: \<open>crop\<close> of the package \<open>scan_crop\<close>. It always succeeds; the
  status is low-confidence when the confidence of the frame's candidate is below the
  configured threshold, and success otherwise.
\<close>

definition crop :: "kernels \<Rightarrow> config \<Rightarrow> image \<Rightarrow> frame_rectangle \<Rightarrow> rotation \<times> rat \<Rightarrow> crop_result" where
  "crop K cfg img f rot =
     \<lparr>cropped = warp K img (corners f) (fst rot),
      frame = f,
      applied_rotation = rot,
      status = (if confidence (source f) < confidence_threshold cfg
                then LowConfidence else Success)\<rparr>"

subsection \<open>The entry point (specification, section 6)\<close>

text \<open>
  Modelled from the spec: the frames of one image, the candidates of the Border Detector
  that the Rectangle Refiner does not drop, in the detector's order.
\<close>

definition refined_frames :: "kernels \<Rightarrow> config \<Rightarrow> edge_map \<Rightarrow> frame_rectangle list" where
  "refined_frames K cfg em =
     List.map_filter (\<lambda>c. refine K cfg c em) (detectCandidates K em cfg)"

text \<open>
  Modelled from the spec: \<open>processImage\<close> of the package \<open>scan_crop\<close>, the data flow
  EdgeMap Builder, Border Detector, Rectangle Refiner, Orientation Resolver, Cropper.
\<close>

definition processImage :: "image \<Rightarrow> config \<Rightarrow> kernels \<Rightarrow> core_error + crop_result list" where
  "processImage img cfg K =
     (case buildEdgeMap K img of
        Inl e \<Rightarrow> Inl e
      | Inr em \<Rightarrow>
          Inr (map (\<lambda>f. crop K cfg img f (resolveOrientation cfg f img))
                 (refined_frames K cfg em)))"

subsection \<open>A synthetic scan (specification, section 8)\<close>

text \<open>
  The concrete input of the properties below: a grayscale scan of 10 by 3 pixels with two
  filled frames of 2 by 2 pixels, a third frame of which one pixel is missing, and a
  speck of one pixel. Its kernels take the pixel value as the edge magnitude and the
  largest magnitude as the threshold, label the components by their columns (the
  rightmost first), try the angle 0 only, and crop an axis-aligned box directly.
\<close>

definition scan :: image where
  "scan =
     \<lparr>width = 10, height = 3, depth = Grayscale,
      pixels =
        [0, 1, 1, 0, 1, 1, 0, 1, 1, 0,
         0, 1, 1, 0, 1, 1, 0, 1, 0, 0,
         1, 0, 0, 0, 0, 0, 0, 0, 0, 0]\<rparr>"

definition direct_crop :: "image \<Rightarrow> quadrilateral \<Rightarrow> rotation \<Rightarrow> image" where
  "direct_crop img quad rot =
     (case quad of (a, b, c, d) \<Rightarrow>
        (let x0 = nat \<lfloor>fst a\<rfloor>; y0 = nat \<lfloor>snd a\<rfloor>;
             w = nat \<lfloor>fst c\<rfloor> - x0; h = nat \<lfloor>snd c\<rfloor> - y0
         in \<lparr>width = w, height = h, depth = depth img,
             pixels = concat (map (\<lambda>y. take w (drop (y * width img + x0) (pixels img)))
                               [y0..<y0 + h])\<rparr>))"

definition scan_kernels :: kernels where
  "scan_kernels =
     \<lparr>edge_operator = (\<lambda>img x y. of_nat (pixels img ! (y * width img + x))),
      threshold_at = (\<lambda>vs p. Max (set vs)),
      connected_components =
        (\<lambda>ps. [filter (\<lambda>(x, y). 7 \<le> x) ps,
                filter (\<lambda>(x, y). 4 \<le> x \<and> x < 7) ps,
                filter (\<lambda>(x, y). 1 \<le> x \<and> x < 4) ps,
                filter (\<lambda>(x, y). x < 1) ps]),
      search_angles = (\<lambda>r. [0]),
      rotated_fit = (\<lambda>em c a. axis_aligned c),
      enclosed_background = (\<lambda>em q. 0),
      warp = direct_crop\<rparr>"

definition scan_config :: config where
  "scan_config =
     \<lparr>minimum_region_area_fraction = 1 / 10,
      minimum_mask_pixel_count = 2,
      adaptive_threshold_percentile = 50,
      rotation_search_range_degrees = 10,
      rotation_improvement_threshold = 1 / 20,
      confidence_threshold = 9 / 10,
      expected_aspect_ratio = 3 / 2\<rparr>"

definition scan_map :: edge_map where
  "scan_map = \<lparr>map_width = 10, map_height = 3, magnitude = edge_operator scan_kernels scan\<rparr>"

section \<open>Properties of build.py\<close>

subsection \<open>Sequencing and printing\<close>

lemma and_then_Inl:
  "fst (and_then r f) = Inl e \<longleftrightarrow>
     fst r = Inl e \<or> (\<exists>x s. r = (Inr x, s) \<and> fst (f x s) = Inl e)"
  by (cases r; cases "fst r") (auto simp: and_then_def)


lemma ordinary_raised_by_print: "ordinary (raised_by_print e)"
  by (cases e) (simp_all add: raised_by_print_def ordinary_def)

lemma print_line_raises: "fst (print_line P l w) = Inl e \<Longrightarrow> ordinary e"
  by (auto simp: print_line_def ordinary_raised_by_print split: option.splits)



lemma print_lines_raises: "fst (print_lines P ls w) = Inl e \<Longrightarrow> ordinary e"
  by (induction ls arbitrary: w) (auto simp: and_then_Inl dest: print_line_raises)

lemma print_line_quiet:
  "\<forall>log l. print_raises P log l = None \<Longrightarrow>
   print_line P l w = (Inr (), w\<lparr>printed := printed w @ [l]\<rparr>)"
  by (simp add: print_line_def)

lemma print_lines_quiet:
  "\<forall>log l. print_raises P log l = None \<Longrightarrow> fst (print_lines P ls w) = Inr ()"
  by (induction ls arbitrary: w) (simp_all add: print_line_quiet and_then_def)

subsection \<open>Which exceptions escape\<close>

lemma subprocess_run_raises:
  "fst (subprocess_run P cmd w) = Inl e \<Longrightarrow>
   ordinary e \<or>
   (\<exists>rc out err. rc \<noteq> 0 \<and> e = CalledProcessError rc out err \<and>
      fst (spawn P cmd (fs w)) = Exited rc (Decoded out) (Decoded err))"
  by (auto simp: subprocess_run_def ordinary_def
           split: prod.splits proc.splits captured.splits if_splits)


lemma try_block_raises:
  "fst (try_block P cmd w) = Inl e \<Longrightarrow>
   ordinary e \<or>
   (\<exists>rc out err. rc \<noteq> 0 \<and> e = CalledProcessError rc out err \<and>
      fst (spawn P cmd (fs w)) = Exited rc (Decoded out) (Decoded err))"
  unfolding try_block_def and_then_Inl
  by (auto dest: subprocess_run_raises print_line_raises)


lemma handler_raises: "fst (handler P e out err w) = Inl x \<Longrightarrow> ordinary x"
  unfolding handler_def and_then_Inl by (auto dest: print_line_raises)


lemma try_except_raises: "fst (try_except P cmd w) = Inl e \<Longrightarrow> ordinary e"
proof (cases "try_block P cmd w")
  case (Pair r w1)
  assume e: "fst (try_except P cmd w) = Inl e"
  show ?thesis
  proof (cases r)
    case (Inr b)
    with Pair e show ?thesis by (simp add: try_except_def)
  next
    case (Inl x)
    with Pair have "fst (try_block P cmd w) = Inl x" by simp
    from try_block_raises [OF this] show ?thesis
    proof
      assume o: "ordinary x"
      with Pair Inl e have "e = x"
        by (cases x) (simp_all add: try_except_def ordinary_def)
      with o show ?thesis by simp
    next
      assume "\<exists>rc out err. rc \<noteq> 0 \<and> x = CalledProcessError rc out err \<and>
        fst (spawn P cmd (fs w)) = Exited rc (Decoded out) (Decoded err)"
      then obtain rc out err where "x = CalledProcessError rc out err" by blast
      with Pair Inl e show ?thesis
        by (auto simp: try_except_def dest: handler_raises)
    qed
  qed
qed


lemma run_command_raises: "fst (run_command P cmd d w) = Inl e \<Longrightarrow> ordinary e"
  unfolding run_command_def and_then_Inl
  by (auto dest: print_line_raises try_except_raises)



lemma remove_if_exists_raises: "fst (remove_if_exists P p w) = Inl e \<Longrightarrow> ordinary e"
  by (auto simp: remove_if_exists_def rmtree_def ordinary_def
           split: if_splits option.splits node.splits)

lemma build_with_pyinstaller_raises:
  "fst (build_with_pyinstaller P w) = Inl e \<Longrightarrow> ordinary e"
  unfolding build_with_pyinstaller_def and_then_Inl
  by (auto simp del: print_lines.simps
           dest: print_lines_raises remove_if_exists_raises run_command_raises)

lemma build_with_nuitka_raises:
  "fst (build_with_nuitka P w) = Inl e \<Longrightarrow> ordinary e"
  unfolding build_with_nuitka_def and_then_Inl
  by (auto simp del: print_lines.simps
           dest: print_lines_raises remove_if_exists_raises run_command_raises)

lemma write_file_raises: "fst (write_file P p s w) = Inl e \<Longrightarrow> ordinary e"
  by (auto simp: write_file_def ordinary_def split: option.splits node.splits)

lemma chmod_raises: "fst (chmod P p w) = Inl e \<Longrightarrow> ordinary e"
  by (auto simp: chmod_def ordinary_def split: option.splits if_splits)

lemma create_build_script_raises:
  "fst (create_build_script P w) = Inl e \<Longrightarrow> ordinary e"
  unfolding create_build_script_def and_then_Inl
  by (auto dest: write_file_raises chmod_raises print_line_raises)

lemma finish_raises:
  "fst (finish P t b w) = Inl e \<Longrightarrow> ordinary e \<or> e = SystemExit 1"
  by (auto simp: finish_def and_then_Inl dest: print_line_raises split: if_splits)

lemma finish_False: "\<exists>e. fst (finish P t False w) = Inl e"
  by (cases "print_line P [Str [CHR 0x0A], Code 0x2717, Str ('' '' @ title t @ '' build failed!'')] w";
      cases "fst (print_line P [Str [CHR 0x0A], Code 0x2717,
                     Str ('' '' @ title t @ '' build failed!'')] w)")
     (auto simp: finish_def and_then_def)

lemma finish_quiet:
  "\<forall>log l. print_raises P log l = None \<Longrightarrow>
   fst (finish P t b w) = (if b then Inr () else Inl (SystemExit 1))"
  by (simp add: finish_def print_line_quiet and_then_def)

lemma build_then_finish_raises:
  assumes "\<And>e. fst B = Inl e \<Longrightarrow> ordinary e"
    and "fst (and_then B (finish P t)) = Inl e"
  shows "ordinary e \<or> e = SystemExit 1"
  using assms unfolding and_then_Inl by (auto dest: finish_raises)

lemma build_then_finish_fails:
  "fst B \<noteq> Inr True \<Longrightarrow> \<exists>e. fst (and_then B (finish P t)) = Inl e"
  using finish_False [of P t "snd B"]
  by (cases B; cases "fst B") (auto simp: and_then_def)

lemma build_then_finish_quiet:
  assumes "\<forall>log l. print_raises P log l = None"
  shows "fst (and_then B (finish P t)) = Inr () \<longleftrightarrow> fst B = Inr True"
  using finish_quiet [OF assms, of t _ "snd B"]
  by (cases B; cases "fst B") (auto simp: and_then_def)

lemma pyinstaller_then_finish_raises:
  "fst (and_then (build_with_pyinstaller P w) (finish P t)) = Inl e \<Longrightarrow>
   ordinary e \<or> e = SystemExit 1"
  by (rule build_then_finish_raises) (auto dest: build_with_pyinstaller_raises)

lemma nuitka_then_finish_raises:
  "fst (and_then (build_with_nuitka P w) (finish P t)) = Inl e \<Longrightarrow>
   ordinary e \<or> e = SystemExit 1"
  by (rule build_then_finish_raises) (auto dest: build_with_nuitka_raises)

lemma main_raises: "fst (main P argv w) = Inl e \<Longrightarrow> ordinary e \<or> e = SystemExit 1"
  unfolding main_def Let_def
  by (auto simp del: print_lines.simps split: if_splits
           dest: pyinstaller_then_finish_raises nuitka_then_finish_raises
                 create_build_script_raises print_lines_raises)

lemma exit_status_Inl: "ordinary e \<or> e = SystemExit 1 \<Longrightarrow> exit_status (Inl e) = 1"
  by (cases e) (auto simp: exit_status_def ordinary_def)

lemma exit_status_main:
  "exit_status (fst (main P argv w)) = (if fst (main P argv w) = Inr () then 0 else 1)"
proof (cases "fst (main P argv w)")
  case (Inl e)
  with main_raises [of P argv w e] exit_status_Inl [of e] show ?thesis by simp
next
  case (Inr u)
  then show ?thesis by (simp add: exit_status_def)
qed

lemma build_py_status:
  "build_py P argv w =
     (if flush_fails P (printed (snd (main P argv w))) then 120
      else if fst (main P argv w) = Inr () then 0 else 1)"
  using exit_status_main [of P argv w]
  by (cases "main P argv w") (simp add: build_py_def)

text \<open>
  The condition under which the script does not end normally although every print
  succeeds: a build target whose build does not return \<open>True\<close>, or the scripts target
  and an exception of \<open>create_build_script\<close>.
\<close>

lemma main_fails:
  assumes "(requested argv = Some ''pyinstaller'' \<and> fst (build_with_pyinstaller P w) \<noteq> Inr True)
     \<or> (requested argv = Some ''nuitka'' \<and> fst (build_with_nuitka P w) \<noteq> Inr True)
     \<or> (requested argv = Some ''scripts'' \<and> fst (create_build_script P w) \<noteq> Inr ())"
  shows "fst (main P argv w) \<noteq> Inr ()"
proof -
  have "\<exists>e. fst (main P argv w) = Inl e"
  proof -
    consider (p) "requested argv = Some ''pyinstaller''"
        "fst (build_with_pyinstaller P w) \<noteq> Inr True"
      | (n) "requested argv = Some ''nuitka''" "fst (build_with_nuitka P w) \<noteq> Inr True"
      | (s) "requested argv = Some ''scripts''" "fst (create_build_script P w) \<noteq> Inr ()"
      using assms by blast
    then show ?thesis
    proof cases
      case p
      then have "main P argv w = and_then (build_with_pyinstaller P w) (finish P ''pyinstaller'')"
        by (simp add: main_def requested_def split: if_splits)
      with build_then_finish_fails [OF p(2)] show ?thesis by simp
    next
      case n
      then have "main P argv w = and_then (build_with_nuitka P w) (finish P ''nuitka'')"
        by (simp add: main_def requested_def split: if_splits)
      with build_then_finish_fails [OF n(2)] show ?thesis by simp
    next
      case s
      then have "main P argv w = create_build_script P w"
        by (simp add: main_def requested_def split: if_splits)
      with s(2) show ?thesis
        by (cases "fst (create_build_script P w)") auto
    qed
  qed
  then show ?thesis by auto
qed

lemma main_quiet:
  assumes q: "\<forall>log l. print_raises P log l = None"
  shows "fst (main P argv w) = Inr () \<longleftrightarrow>
    \<not> ((requested argv = Some ''pyinstaller'' \<and> fst (build_with_pyinstaller P w) \<noteq> Inr True)
     \<or> (requested argv = Some ''nuitka'' \<and> fst (build_with_nuitka P w) \<noteq> Inr True)
     \<or> (requested argv = Some ''scripts'' \<and> fst (create_build_script P w) \<noteq> Inr ()))"
  by (auto simp: main_def Let_def requested_def build_then_finish_quiet [OF q]
                 print_lines_quiet [OF q]
           simp del: print_lines.simps)

subsection \<open>The exit status of the script\<close>

text \<open>
  Claim C8, as the specification states it: the script exits with status 1 exactly when
  a build target (pyinstaller or nuitka) is requested and its build fails, and with
  status 0 in every other case, the scripts target, an unknown target and no argument
  among them. The statement fails in each of these cases. For the scripts target: when
  \<open>build-windows.bat\<close> is a directory, \<open>open\<close> raises \<open>IsADirectoryError\<close>, nothing
  catches it, and the interpreter exits with status 1. With no argument: when the
  streams cannot be flushed at exit, the status is 120. After a successful build: when
  standard output cannot encode the check mark, \<open>print\<close> raises and the status is 1.
\<close>

theorem scripts_target_exit_status_counterexample:
  "requested [''build.py'', ''scripts''] = Some ''scripts'' \<and>
   build_py (console (Exited 0 (Decoded []) (Decoded []))) [''build.py'', ''scripts'']
     \<lparr>fs = [''build-windows.bat'' \<mapsto> Dir], printed = []\<rparr> = 1 \<and>
   requested [''build.py''] = None \<and>
   build_py (unflushable (Exited 0 (Decoded []) (Decoded []))) [''build.py''] empty_world = 120 \<and>
   requested [''build.py'', ''nuitka''] = Some ''nuitka'' \<and>
   fst (build_with_nuitka (console (Exited 0 (Decoded []) (Decoded []))) empty_world) = Inr True \<and>
   build_py (legacy_console (Exited 0 (Decoded []) (Decoded []))) [''build.py'', ''nuitka'']
     empty_world = 1"
  by code_simp

text \<open>
  Claim C8, amended. The exit status is 0, 1 or 120, and it is 120 exactly when the
  standard streams cannot be flushed at exit. It is not 0 when a build target
  (pyinstaller or nuitka, compared after \<open>lower\<close>) is requested and its build does not
  return \<open>True\<close> (it returns \<open>False\<close>, or an exception escapes it), nor when the scripts
  target is requested and an exception escapes \<open>create_build_script\<close>. When every print
  succeeds and the streams can be flushed, the status is 1 in exactly these cases and 0
  in every other case, an unknown target and no argument among them.
\<close>

theorem build_py_exit_status:
  "(build_py P argv w = 0 \<or> build_py P argv w = 1 \<or> build_py P argv w = 120) \<and>
   (build_py P argv w = 120 \<longleftrightarrow> flush_fails P (printed (snd (main P argv w)))) \<and>
   ((requested argv = Some ''pyinstaller'' \<and> fst (build_with_pyinstaller P w) \<noteq> Inr True)
     \<or> (requested argv = Some ''nuitka'' \<and> fst (build_with_nuitka P w) \<noteq> Inr True)
     \<or> (requested argv = Some ''scripts'' \<and> fst (create_build_script P w) \<noteq> Inr ())
    \<longrightarrow> build_py P argv w \<noteq> 0) \<and>
   ((\<forall>log l. print_raises P log l = None) \<and> (\<forall>log. \<not> flush_fails P log) \<longrightarrow>
    build_py P argv w =
      (if (requested argv = Some ''pyinstaller'' \<and> fst (build_with_pyinstaller P w) \<noteq> Inr True)
        \<or> (requested argv = Some ''nuitka'' \<and> fst (build_with_nuitka P w) \<noteq> Inr True)
        \<or> (requested argv = Some ''scripts'' \<and> fst (create_build_script P w) \<noteq> Inr ())
       then 1 else 0))"
proof (intro conjI impI)
  show "build_py P argv w = 0 \<or> build_py P argv w = 1 \<or> build_py P argv w = 120"
    by (simp add: build_py_status)
next
  show "build_py P argv w = 120 \<longleftrightarrow> flush_fails P (printed (snd (main P argv w)))"
    by (simp add: build_py_status)
next
  assume "(requested argv = Some ''pyinstaller'' \<and> fst (build_with_pyinstaller P w) \<noteq> Inr True)
     \<or> (requested argv = Some ''nuitka'' \<and> fst (build_with_nuitka P w) \<noteq> Inr True)
     \<or> (requested argv = Some ''scripts'' \<and> fst (create_build_script P w) \<noteq> Inr ())"
  from main_fails [OF this] show "build_py P argv w \<noteq> 0"
    by (simp add: build_py_status)
next
  assume q: "(\<forall>log l. print_raises P log l = None) \<and> (\<forall>log. \<not> flush_fails P log)"
  then have "\<forall>log l. print_raises P log l = None" by simp
  from main_quiet [OF this, of argv w] q
  show "build_py P argv w =
      (if (requested argv = Some ''pyinstaller'' \<and> fst (build_with_pyinstaller P w) \<noteq> Inr True)
        \<or> (requested argv = Some ''nuitka'' \<and> fst (build_with_nuitka P w) \<noteq> Inr True)
        \<or> (requested argv = Some ''scripts'' \<and> fst (create_build_script P w) \<noteq> Inr ())
       then 1 else 0)"
    by (simp add: build_py_status)
qed

text \<open>
  The witness: on a console that takes every line, a Nuitka build whose command exits
  with status 2 returns \<open>False\<close> and the script exits with status 1; a PyInstaller build
  whose command exits with status 0 returns \<open>True\<close> and the script exits with status
  0, as it does with no argument.
\<close>

theorem build_py_exit_status_witness:
  "requested [''build.py'', ''Nuitka''] = Some ''nuitka'' \<and>
   fst (build_with_nuitka (console (Exited 2 (Decoded []) (Decoded ''no module''))) empty_world)
     = Inr False \<and>
   build_py (console (Exited 2 (Decoded []) (Decoded ''no module''))) [''build.py'', ''Nuitka'']
     empty_world = 1 \<and>
   requested [''build.py'', ''pyinstaller''] = Some ''pyinstaller'' \<and>
   fst (build_with_pyinstaller (console (Exited 0 (Decoded ''done'') (Decoded []))) empty_world)
     = Inr True \<and>
   build_py (console (Exited 0 (Decoded ''done'') (Decoded []))) [''build.py'', ''pyinstaller'']
     empty_world = 0 \<and>
   build_py (console (Exited 0 (Decoded ''done'') (Decoded []))) [''build.py''] empty_world = 0"
proof -
  let ?F = "console (Exited 2 (Decoded []) (Decoded ''no module''))"
  let ?S = "console (Exited 0 (Decoded ''done'') (Decoded []))"
  have qF: "(\<forall>log l. print_raises ?F log l = None) \<and> (\<forall>log. \<not> flush_fails ?F log)"
    and qS: "(\<forall>log l. print_raises ?S log l = None) \<and> (\<forall>log. \<not> flush_fails ?S log)"
    by (simp_all add: console_def)
  have r1: "requested [''build.py'', ''Nuitka''] = Some ''nuitka''"
    and r2: "requested [''build.py'', ''pyinstaller''] = Some ''pyinstaller''"
    and r3: "requested [''build.py''] = None"
    by code_simp+
  have b1: "fst (build_with_nuitka ?F empty_world) = Inr False"
    and b2: "fst (build_with_pyinstaller ?S empty_world) = Inr True"
    by code_simp+
  from build_py_exit_status [of ?F "[''build.py'', ''Nuitka'']" empty_world] qF r1 b1
  have s1: "build_py ?F [''build.py'', ''Nuitka''] empty_world = 1" by simp
  from build_py_exit_status [of ?S "[''build.py'', ''pyinstaller'']" empty_world] qS r2 b2
  have s2: "build_py ?S [''build.py'', ''pyinstaller''] empty_world = 0" by simp
  from build_py_exit_status [of ?S "[''build.py'']" empty_world] qS r3
  have s3: "build_py ?S [''build.py''] empty_world = 0" by simp
  from r1 b1 s1 r2 b2 s2 s3 show ?thesis by (intro conjI)
qed

subsection \<open>What run_command returns\<close>




section \<open>Properties of setup.py\<close>

lemma scan_version_no_match:
  "\<forall>line \<in> set ls. \<not> startswith line ''__version__'' \<Longrightarrow> scan_version ls = None"
  by (induction ls) simp_all

text \<open>
  Claim C10, as the specification states it: in every directory where
  \<open>scan_crop/__init__.py\<close> does not exist, or exists but contains no line starting with
  \<open>__version__\<close>, \<open>get_version\<close> returns the fallback \<open>0.1.0\<close> instead of failing.
  The statement fails for a path that exists and has no such line in three ways: a file
  whose bytes are not UTF-8 (here from its first byte on), a directory, and a file that
  cannot be opened; \<open>get_version\<close> catches nothing, so it raises.
\<close>

theorem get_version_counterexample:
  "exists [init_path \<mapsto> Undecodable []] init_path \<and>
   list_all (\<lambda>line. \<not> startswith line ''__version__'') (complete_lines []) \<and>
   get_version [init_path \<mapsto> Undecodable []] = Inl UnicodeDecodeError \<and>
   exists [init_path \<mapsto> Dir] init_path \<and>
   get_version [init_path \<mapsto> Dir] = Inl (OSError IsADirectoryError) \<and>
   exists [init_path \<mapsto> Unreadable PermissionError] init_path \<and>
   get_version [init_path \<mapsto> Unreadable PermissionError] = Inl (OSError PermissionError)"
  by (simp add: exists_def get_version_def complete_lines_def readlines_def)

text \<open>
  Claim C10, amended: \<open>get_version\<close> returns the fallback \<open>0.1.0\<close> in every directory
  where \<open>scan_crop/__init__.py\<close> does not exist, or is a regular file that can be
  opened, is UTF-8 and has no line starting with \<open>__version__\<close>. Where the path is a
  directory it raises \<open>IsADirectoryError\<close>, where the file cannot be opened the error
  of \<open>open\<close>, and where the file stops being UTF-8 and no line before that starts with
  \<open>__version__\<close> it raises \<open>UnicodeDecodeError\<close>.
\<close>

theorem get_version_fallback:
  "(files init_path = None \<longrightarrow> get_version files = Inr ''0.1.0'') \<and>
   (\<forall>s. files init_path = Some (File s) \<and>
        (\<forall>line \<in> set (readlines s). \<not> startswith line ''__version__'')
        \<longrightarrow> get_version files = Inr ''0.1.0'') \<and>
   (files init_path = Some Dir \<longrightarrow> get_version files = Inl (OSError IsADirectoryError)) \<and>
   (\<forall>e. files init_path = Some (Unreadable e) \<longrightarrow> get_version files = Inl (OSError e)) \<and>
   (\<forall>s. files init_path = Some (Undecodable s) \<and>
        (\<forall>line \<in> set (complete_lines s). \<not> startswith line ''__version__'')
        \<longrightarrow> get_version files = Inl UnicodeDecodeError)"
  by (auto simp: get_version_def scan_version_no_match)

text \<open>
  The witness: an empty directory; a file whose only mention of \<open>__version__\<close> is
  indented, so that no line starts with it; and a file with one complete comment line
  before bytes that are not UTF-8.
\<close>

theorem get_version_fallback_witness:
  "(Map.empty :: filesystem) init_path = None \<and>
   get_version Map.empty = Inr ''0.1.0'' \<and>
   list_all (\<lambda>line. \<not> startswith line ''__version__'')
     (readlines (''import cv2'' @ [CHR 0x0A] @ ''  __version__ = 4'' @ [CHR 0x0A])) \<and>
   get_version
     [init_path \<mapsto> File (''import cv2'' @ [CHR 0x0A] @ ''  __version__ = 4'' @ [CHR 0x0A])]
     = Inr ''0.1.0'' \<and>
   list_all (\<lambda>line. \<not> startswith line ''__version__'')
     (complete_lines (''# coding: latin-1'' @ [CHR 0x0A] @ ''# Jos'')) \<and>
   get_version [init_path \<mapsto> Undecodable (''# coding: latin-1'' @ [CHR 0x0A] @ ''# Jos'')]
     = Inl UnicodeDecodeError \<and>
   get_version [init_path \<mapsto> Dir] = Inl (OSError IsADirectoryError) \<and>
   get_version [init_path \<mapsto> Unreadable PermissionError] = Inl (OSError PermissionError)"
proof -
  let ?s = "''import cv2'' @ [CHR 0x0A] @ ''  __version__ = 4'' @ [CHR 0x0A]"
  let ?u = "''# coding: latin-1'' @ [CHR 0x0A] @ ''# Jos''"
  have h: "\<forall>line \<in> set (readlines ?s). \<not> startswith line ''__version__''"
    by (simp add: readlines_def startswith_def)
  have k: "\<forall>line \<in> set (complete_lines ?u). \<not> startswith line ''__version__''"
    by (simp add: complete_lines_def readlines_def startswith_def)
  show ?thesis
    using h k get_version_fallback [of Map.empty]
      get_version_fallback [of "[init_path \<mapsto> File ?s]"]
      get_version_fallback [of "[init_path \<mapsto> Undecodable ?u]"]
      get_version_fallback [of "[init_path \<mapsto> Dir]"]
      get_version_fallback [of "[init_path \<mapsto> Unreadable PermissionError]"]
    by (simp add: list_all_iff)
qed

text \<open>What \<open>get_version\<close> does on the lines the fallback does not cover.\<close>

lemma get_version_reads_first_match:
  "get_version [init_path \<mapsto> File (''# pkg'' @ [CHR 0x0A] @ ''__version__ = '' @ [CHR 0x22]
      @ ''1.2.3'' @ [CHR 0x22, CHR 0x0A])] = Inr ''1.2.3''"
  by code_simp

lemma get_version_IndexError:
  "get_version [init_path \<mapsto> File (''__version__'' @ [CHR 0x0A] @ ''__version__ = 2'')]
     = Inl IndexError"
  by code_simp

text \<open>
  Claim C2, as the specification states it: the \<open>description\<close> argument of \<open>setup\<close>
  equals the exact string \<open>film negative/positive crop detection tool with automatic
  border detection\<close>. The argument starts with a capital F, so the two strings differ.
\<close>

theorem setup_description_counterexample:
  "\<exists>m. setup_py Map.empty = Inr m \<and>
     description m \<noteq> ''film negative/positive crop detection tool with automatic border detection''"
  by (simp add: setup_py_def get_version_def read_readme_def)

text \<open>
  Claim C2, amended: whenever \<open>setup\<close> is called, its \<open>description\<close> argument is the
  string \<open>Film negative/positive crop detection tool with automatic border detection\<close>,
  which is the quoted string up to the case of its first letter.
\<close>

theorem setup_description:
  "setup_py files = Inr m \<Longrightarrow>
   description m = ''Film negative/positive crop detection tool with automatic border detection'' \<and>
   lower (description m) =
     ''film negative/positive crop detection tool with automatic border detection''"
proof -
  assume "setup_py files = Inr m"
  then have d: "description m =
      ''Film negative/positive crop detection tool with automatic border detection''"
    by (auto simp: setup_py_def split: sum.splits)
  have "lower ''Film negative/positive crop detection tool with automatic border detection'' =
      ''film negative/positive crop detection tool with automatic border detection''"
    by code_simp
  with d show ?thesis by simp
qed

theorem setup_description_witness:
  "setup_py Map.empty = Inr
     \<lparr>name = ''scan-crop'',
      version = ''0.1.0'',
      author = ''Your Name'',
      author_email = ''your.email@example.com'',
      description =
        ''Film negative/positive crop detection tool with automatic border detection'',
      long_description = ''Film negative/positive crop detection tool'',
      long_description_content_type = ''text/markdown'',
      url = ''https://github.com/yourusername/scan-crop'',
      classifiers =
        [''Development Status :: 4 - Beta'',
         ''Intended Audience :: End Users/Desktop'',
         ''License :: OSI Approved :: MIT License'',
         ''Operating System :: OS Independent'',
         ''Programming Language :: Python :: 3'',
         ''Programming Language :: Python :: 3.8'',
         ''Programming Language :: Python :: 3.9'',
         ''Programming Language :: Python :: 3.10'',
         ''Programming Language :: Python :: 3.11'',
         ''Programming Language :: Python :: 3.12'',
         ''Topic :: Multimedia :: Graphics :: Graphics Conversion'',
         ''Topic :: Scientific/Engineering :: Image Processing''],
      python_requires = ''>=3.8'',
      install_requires = [''opencv-python>=4.5.0'', ''numpy>=1.19.0''],
      extras_require =
        [(''dev'', [''pytest>=6.0'', ''black>=21.0'', ''flake8>=3.8'', ''mypy>=0.800'']),
         (''build'', [''pyinstaller>=5.0'', ''nuitka>=1.0''])],
      entry_points = [(''console_scripts'', [''scan-crop=scan_crop.cli:main''])],
      include_package_data = True,
      zip_safe = False\<rparr> \<and>
   (\<exists>m. setup_py Map.empty = Inr m \<and>
     description m =
       ''Film negative/positive crop detection tool with automatic border detection'')"
proof -
  obtain m where m: "setup_py Map.empty = Inr m"
    by (simp add: setup_py_def get_version_def read_readme_def)
  from setup_description [OF m] m show ?thesis
    by (simp add: setup_py_def get_version_def read_readme_def)
qed

section \<open>Properties of the image-analysis core\<close>

subsection \<open>The order of the candidates\<close>

lemma reading_key_le:
  "reading_key a \<le> reading_key b \<longleftrightarrow>
     confidence b < confidence a \<or>
     (confidence a = confidence b \<and>
        (box_left a < box_left b \<or> (box_left a = box_left b \<and> box_top a \<le> box_top b)))"
  by (auto simp: reading_key_def less_eq_prod_def)

lemma reading_key_le_D:
  assumes "reading_key a \<le> reading_key b"
  shows "confidence b \<le> confidence a \<and>
         (confidence a = confidence b \<longrightarrow>
            box_left a \<le> box_left b \<and> (box_left a = box_left b \<longrightarrow> box_top a \<le> box_top b))"
  using assms unfolding reading_key_le by auto

lemma detectCandidates_sorted:
  "i < j \<Longrightarrow> j < length (detectCandidates K em cfg) \<Longrightarrow>
   reading_key (detectCandidates K em cfg ! i) \<le> reading_key (detectCandidates K em cfg ! j)"
proof -
  assume ij: "i < j" "j < length (detectCandidates K em cfg)"
  have "sorted (map reading_key (detectCandidates K em cfg))"
    by (simp add: detectCandidates_def)
  with ij show ?thesis
    by (simp add: sorted_iff_nth_mono_less)
qed

text \<open>
  Claim C6: \<open>detectCandidates\<close> returns all qualifying candidate regions (exactly
  those, each as often as it qualifies), ordered by descending confidence; of two
  candidates of equal confidence the one with the smaller x of its left edge comes first,
  and of two that agree on that too the one with the smaller y.
\<close>

theorem detectCandidates_order:
  "mset (detectCandidates K em cfg) = mset (qualifying_regions K em cfg) \<and>
   (\<forall>i j. i < j \<and> j < length (detectCandidates K em cfg) \<longrightarrow>
      confidence (detectCandidates K em cfg ! j) \<le> confidence (detectCandidates K em cfg ! i) \<and>
      (confidence (detectCandidates K em cfg ! i) = confidence (detectCandidates K em cfg ! j) \<longrightarrow>
         box_left (detectCandidates K em cfg ! i) \<le> box_left (detectCandidates K em cfg ! j) \<and>
         (box_left (detectCandidates K em cfg ! i) = box_left (detectCandidates K em cfg ! j) \<longrightarrow>
            box_top (detectCandidates K em cfg ! i) \<le> box_top (detectCandidates K em cfg ! j))))"
proof (rule conjI)
  show "mset (detectCandidates K em cfg) = mset (qualifying_regions K em cfg)"
    by (simp add: detectCandidates_def)
next
  show "\<forall>i j. i < j \<and> j < length (detectCandidates K em cfg) \<longrightarrow>
      confidence (detectCandidates K em cfg ! j) \<le> confidence (detectCandidates K em cfg ! i) \<and>
      (confidence (detectCandidates K em cfg ! i) = confidence (detectCandidates K em cfg ! j) \<longrightarrow>
         box_left (detectCandidates K em cfg ! i) \<le> box_left (detectCandidates K em cfg ! j) \<and>
         (box_left (detectCandidates K em cfg ! i) = box_left (detectCandidates K em cfg ! j) \<longrightarrow>
            box_top (detectCandidates K em cfg ! i) \<le> box_top (detectCandidates K em cfg ! j)))"
  proof (intro allI impI)
    fix i j
    assume "i < j \<and> j < length (detectCandidates K em cfg)"
    then have "reading_key (detectCandidates K em cfg ! i)
        \<le> reading_key (detectCandidates K em cfg ! j)"
      by (simp add: detectCandidates_sorted)
    from reading_key_le_D [OF this]
    show "confidence (detectCandidates K em cfg ! j) \<le> confidence (detectCandidates K em cfg ! i) \<and>
      (confidence (detectCandidates K em cfg ! i) = confidence (detectCandidates K em cfg ! j) \<longrightarrow>
         box_left (detectCandidates K em cfg ! i) \<le> box_left (detectCandidates K em cfg ! j) \<and>
         (box_left (detectCandidates K em cfg ! i) = box_left (detectCandidates K em cfg ! j) \<longrightarrow>
            box_top (detectCandidates K em cfg ! i) \<le> box_top (detectCandidates K em cfg ! j)))" .
  qed
qed

lemma scan_regions:
  "qualifying_regions scan_kernels scan_map scan_config =
     [\<lparr>box_left = 7, box_top = 0, box_width = 2, box_height = 2, confidence = 3 / 4\<rparr>,
      \<lparr>box_left = 4, box_top = 0, box_width = 2, box_height = 2, confidence = 1\<rparr>,
      \<lparr>box_left = 1, box_top = 0, box_width = 2, box_height = 2, confidence = 1\<rparr>]"
  by code_simp

lemma scan_candidates:
  "detectCandidates scan_kernels scan_map scan_config =
     [\<lparr>box_left = 1, box_top = 0, box_width = 2, box_height = 2, confidence = 1\<rparr>,
      \<lparr>box_left = 4, box_top = 0, box_width = 2, box_height = 2, confidence = 1\<rparr>,
      \<lparr>box_left = 7, box_top = 0, box_width = 2, box_height = 2, confidence = 3 / 4\<rparr>]"
  by code_simp

text \<open>
  The witness is the synthetic scan with its two frames of equal confidence: the kernels
  label the right frame first, the detector returns the left one first.
\<close>

theorem detectCandidates_order_witness:
  "qualifying_regions scan_kernels scan_map scan_config =
     [\<lparr>box_left = 7, box_top = 0, box_width = 2, box_height = 2, confidence = 3 / 4\<rparr>,
      \<lparr>box_left = 4, box_top = 0, box_width = 2, box_height = 2, confidence = 1\<rparr>,
      \<lparr>box_left = 1, box_top = 0, box_width = 2, box_height = 2, confidence = 1\<rparr>] \<and>
   detectCandidates scan_kernels scan_map scan_config =
     [\<lparr>box_left = 1, box_top = 0, box_width = 2, box_height = 2, confidence = 1\<rparr>,
      \<lparr>box_left = 4, box_top = 0, box_width = 2, box_height = 2, confidence = 1\<rparr>,
      \<lparr>box_left = 7, box_top = 0, box_width = 2, box_height = 2, confidence = 3 / 4\<rparr>] \<and>
   (0::nat) < 1 \<and> 1 < length (detectCandidates scan_kernels scan_map scan_config) \<and>
   confidence (detectCandidates scan_kernels scan_map scan_config ! 0) =
     confidence (detectCandidates scan_kernels scan_map scan_config ! 1) \<and>
   box_left (detectCandidates scan_kernels scan_map scan_config ! 0)
     \<le> box_left (detectCandidates scan_kernels scan_map scan_config ! 1)"
proof -
  have ij: "(0::nat) < 1 \<and> 1 < length (detectCandidates scan_kernels scan_map scan_config)"
    by (simp add: scan_candidates)
  have eq: "confidence (detectCandidates scan_kernels scan_map scan_config ! 0) =
     confidence (detectCandidates scan_kernels scan_map scan_config ! 1)"
    by (simp add: scan_candidates)
  from detectCandidates_order [of scan_kernels scan_map scan_config] ij eq
  have "box_left (detectCandidates scan_kernels scan_map scan_config ! 0)
     \<le> box_left (detectCandidates scan_kernels scan_map scan_config ! 1)"
    by blast
  with ij eq scan_regions scan_candidates show ?thesis
    by simp
qed

subsection \<open>The frames that cross the core boundary\<close>

lemma map_filter_member:
  "y \<in> set (List.map_filter g xs) \<Longrightarrow> \<exists>x \<in> set xs. g x = Some y"
  by (induction xs) (auto split: option.splits)

lemma refine_valid:
  "refine K cfg c em = Some f \<Longrightarrow> valid_frame em cfg (corners f) \<and> source f = c"
  by (auto simp: refine_def Let_def split: if_splits)

lemma refined_frames_valid:
  "f \<in> set (refined_frames K cfg em) \<Longrightarrow> valid_frame em cfg (corners f)"
  unfolding refined_frames_def by (auto dest!: map_filter_member refine_valid)

lemma processImage_Inr:
  "processImage img cfg K = Inr rs \<Longrightarrow>
   rs = map (\<lambda>f. crop K cfg img f (resolveOrientation cfg f img))
          (refined_frames K cfg
             \<lparr>map_width = width img, map_height = height img,
              magnitude = edge_operator K img\<rparr>)"
  by (auto simp: processImage_def buildEdgeMap_def split: if_splits)

lemma scan_result:
  "processImage scan scan_config scan_kernels = Inr
     [\<lparr>cropped = \<lparr>width = 2, height = 2, depth = Grayscale, pixels = [1, 1, 1, 1]\<rparr>,
       frame = \<lparr>corners = ((1, 0), (3, 0), (3, 2), (1, 2)), angle = 0,
                source = \<lparr>box_left = 1, box_top = 0, box_width = 2, box_height = 2,
                           confidence = 1\<rparr>\<rparr>,
       applied_rotation = (R0, 0), status = Success\<rparr>,
      \<lparr>cropped = \<lparr>width = 2, height = 2, depth = Grayscale, pixels = [1, 1, 1, 1]\<rparr>,
       frame = \<lparr>corners = ((4, 0), (6, 0), (6, 2), (4, 2)), angle = 0,
                source = \<lparr>box_left = 4, box_top = 0, box_width = 2, box_height = 2,
                           confidence = 1\<rparr>\<rparr>,
       applied_rotation = (R0, 0), status = Success\<rparr>,
      \<lparr>cropped = \<lparr>width = 2, height = 2, depth = Grayscale, pixels = [1, 1, 1, 0]\<rparr>,
       frame = \<lparr>corners = ((7, 0), (9, 0), (9, 2), (7, 2)), angle = 0,
                source = \<lparr>box_left = 7, box_top = 0, box_width = 2, box_height = 2,
                           confidence = 3 / 4\<rparr>\<rparr>,
       applied_rotation = (R0, 0), status = LowConfidence\<rparr>]"
  by code_simp

text \<open>
  Claim C5: every Frame Rectangle that \<open>processImage\<close> returns is convex (and so does
  not cross itself) and has an area of at least the minimum-region-area-fraction of the
  image area; a region below that area is in no result.
\<close>

theorem returned_frames_invariant:
  "processImage img cfg K = Inr rs \<Longrightarrow> r \<in> set rs \<Longrightarrow>
   convex (corners (frame r)) \<and>
   minimum_region_area_fraction cfg * of_nat (width img * height img)
     \<le> area (corners (frame r))"
proof -
  assume p: "processImage img cfg K = Inr rs" and r: "r \<in> set rs"
  let ?em = "\<lparr>map_width = width img, map_height = height img,
              magnitude = edge_operator K img\<rparr>"
  from r processImage_Inr [OF p] obtain f where f: "f \<in> set (refined_frames K cfg ?em)"
    and "r = crop K cfg img f (resolveOrientation cfg f img)"
    by auto
  then have "frame r = f"
    by (simp add: crop_def)
  with refined_frames_valid [OF f] show ?thesis
    by (simp add: valid_frame_def)
qed

text \<open>
  The witness is the synthetic scan: its three frames have area 4, at least a tenth of
  the 30 pixels of the image, and the speck in column 0 is not among them.
\<close>

theorem returned_frames_invariant_witness:
  "\<exists>rs. processImage scan scan_config scan_kernels = Inr rs \<and> length rs = 3 \<and>
     list_all (\<lambda>r. convex (corners (frame r)) \<and>
                 minimum_region_area_fraction scan_config * of_nat (width scan * height scan)
                   \<le> area (corners (frame r))) rs \<and>
     list_all (\<lambda>r. area (corners (frame r)) = 4 \<and> box_left (source (frame r)) \<noteq> 0) rs"
proof -
  obtain rs where rs: "processImage scan scan_config scan_kernels = Inr rs"
    and l: "length rs = 3"
    and s: "list_all (\<lambda>r. area (corners (frame r)) = 4 \<and> box_left (source (frame r)) \<noteq> 0) rs"
    using scan_result by (simp add: area_def)
  have "list_all (\<lambda>r. convex (corners (frame r)) \<and>
                 minimum_region_area_fraction scan_config * of_nat (width scan * height scan)
                   \<le> area (corners (frame r))) rs"
    unfolding list_all_iff using returned_frames_invariant [OF rs] by blast
  with rs l s show ?thesis by blast
qed

end
